theory Spec2Isabelle
  imports Complex_Main
begin

section \<open>Data model (src/types.ts)\<close>

text \<open>
  JavaScript numbers are modelled as \<^typ>\<open>real\<close>: arithmetic on finite values is exact and
  there is no rounding, no NaN and no infinity. The source never raises on a division by
  zero (it yields Infinity or NaN), whereas \<open>x / 0 = 0\<close> in HOL; the model therefore agrees
  with the source only where the divisor is non-zero, and every statement below that
  depends on a quotient by a \<open>period\<close> argument says so in its hypotheses. The \<open>period\<close>
  arguments are modelled as \<^typ>\<open>int\<close> (they are used as loop bounds and slice offsets).
  The \<open>confidence\<close> score is only ever built from integer literals and is an \<^typ>\<open>int\<close>.
\<close>

datatype TradeSignal = CALL | PUT | NEUTRAL | WAITING

datatype Color = green | red

datatype Direction = UP | DOWN

text \<open>The trend label is the string union \<open>'UP' | 'DOWN' | 'SIDEWAYS'\<close>; its first two
  members are prefixed here to keep them apart from the Supertrend direction.\<close>

datatype Trend = TREND_UP | TREND_DOWN | SIDEWAYS

record Candle =
  time :: int
  "open" :: real
  high :: real
  low :: real
  close :: real

record HeikinAshiCandle = Candle +
  color :: Color
  hasUpperWick :: bool
  hasLowerWick :: bool
  bodySize :: real
  upperWickSize :: real
  lowerWickSize :: real

text \<open>The anonymous object types \<open>{value, signal, histogram}\<close> and \<open>{direction, value}\<close>;
  their fields carry a prefix because \<open>value\<close> and \<open>signal\<close> occur in several of them.\<close>

record MACD =
  macd_value :: real
  macd_signal :: real
  macd_histogram :: real

record Supertrend =
  st_direction :: Direction
  st_value :: real

record AnalysisResult =
  signal :: TradeSignal
  confidence :: int
  rsi :: real
  ema20 :: real
  ema50 :: real
  trend :: Trend
  macd :: MACD
  supertrend :: Supertrend

text \<open>The only failure the functions below can raise: reading a property of \<open>undefined\<close>.\<close>

datatype error = TypeError


section \<open>Heikin-Ashi transform (calculateHeikinAshi)\<close>

text \<open>The first smoothed candle (source lines 18--30): the raw candle with its close replaced,
  and the wick flags decided by a strict comparison.\<close>

definition firstHa :: "Candle \<Rightarrow> HeikinAshiCandle" where
  "firstHa first =
     (let firstHaClose = (open first + high first + low first + close first) / 4
      in \<lparr> time = time first, open = open first, high = high first, low = low first,
           close = firstHaClose,
           color = (if firstHaClose \<ge> open first then green else red),
           hasUpperWick = (high first > max (open first) firstHaClose),
           hasLowerWick = (low first < min (open first) firstHaClose),
           bodySize = \<bar>firstHaClose - open first\<bar>,
           upperWickSize = high first - max (open first) firstHaClose,
           lowerWickSize = min (open first) firstHaClose - low first \<rparr>)"

text \<open>One iteration of the loop (source lines 33--58): \<open>cur\<close> is \<open>candles[i]\<close> (the source's
  \<open>curr\<close>) and \<open>prevHa\<close> is \<open>haCandles[i - 1]\<close>.\<close>

definition haStep :: "HeikinAshiCandle \<Rightarrow> Candle \<Rightarrow> HeikinAshiCandle" where
  "haStep prevHa cur =
     (let haClose = (open cur + high cur + low cur + close cur) / 4;
          haOpen = (open prevHa + close prevHa) / 2;
          haHigh = max (high cur) (max haOpen haClose);
          haLow = min (low cur) (min haOpen haClose);
          bodySize = \<bar>haClose - haOpen\<bar>;
          upperWickSize = haHigh - max haOpen haClose;
          lowerWickSize = min haOpen haClose - haLow
      in \<lparr> time = time cur, open = haOpen, high = haHigh, low = haLow, close = haClose,
           color = (if haClose \<ge> haOpen then green else red),
           hasUpperWick = (upperWickSize > 0.00001),
           hasLowerWick = (lowerWickSize > 0.00001),
           bodySize = bodySize,
           upperWickSize = upperWickSize,
           lowerWickSize = lowerWickSize \<rparr>)"

text \<open>The loop over \<open>candles[1..]\<close>, threading the candle pushed last.\<close>

fun haLoop :: "HeikinAshiCandle \<Rightarrow> Candle list \<Rightarrow> HeikinAshiCandle list" where
  "haLoop prevHa [] = []"
| "haLoop prevHa (cur # rest) = (let ha = haStep prevHa cur in ha # haLoop ha rest)"

definition calculateHeikinAshi :: "Candle list \<Rightarrow> HeikinAshiCandle list" where
  "calculateHeikinAshi candles =
     (case candles of
        [] \<Rightarrow> []
      | first # rest \<Rightarrow> (let h0 = firstHa first in h0 # haLoop h0 rest))"





section \<open>Indicator bank\<close>

subsection \<open>calculateEMA\<close>

fun emaLoop :: "real \<Rightarrow> real \<Rightarrow> real list \<Rightarrow> real list" where
  "emaLoop k prevEma [] = []"
| "emaLoop k prevEma (currentPrice # rest) =
     (let newEma = (currentPrice - prevEma) * k + prevEma in newEma # emaLoop k newEma rest)"

definition calculateEMA :: "real list \<Rightarrow> int \<Rightarrow> real list" where
  "calculateEMA data period =
     (let k = 2 / (real_of_int period + 1)
      in case data of [] \<Rightarrow> [] | d0 # rest \<Rightarrow> d0 # emaLoop k d0 rest)"

subsection \<open>calculateRSI\<close>

text \<open>One iteration of the loop at index \<open>i\<close>, on the pair \<open>(gains, losses)\<close>.\<close>

definition rsiStep :: "real list \<Rightarrow> real \<times> real \<Rightarrow> nat \<Rightarrow> real \<times> real" where
  "rsiStep closePrices gl i =
     (let change = closePrices ! i - closePrices ! (i - 1)
      in if change \<ge> 0 then (fst gl + change, snd gl) else (fst gl, snd gl + \<bar>change\<bar>))"

text \<open>
  The loop runs \<open>i\<close> from \<open>length - effectivePeriod\<close> up to \<open>length - 1\<close>. Since
  \<open>effectivePeriod \<le> length - 1\<close> the start index is at least 1, so both reads are in range;
  a non-positive \<open>effectivePeriod\<close> gives an empty range.
\<close>

definition calculateRSI :: "real list \<Rightarrow> int \<Rightarrow> real" where
  "calculateRSI closePrices period =
     (if length closePrices < 2 then 50
      else
        let effectivePeriod = min (int (length closePrices) - 1) period;
            gl = foldl (rsiStep closePrices) (0, 0)
                   [nat (int (length closePrices) - effectivePeriod) ..< length closePrices];
            avgGain = fst gl / real_of_int effectivePeriod;
            avgLoss = snd gl / real_of_int effectivePeriod
        in if avgLoss = 0 then 100
           else let rs = avgGain / avgLoss in 100 - (100 / (1 + rs)))"


subsection \<open>calculateMACD\<close>

text \<open>
  The MACD line is built index by index over \<open>data\<close>; both EMA arrays have the length of
  \<open>data\<close>, so every read is in range. On an empty series the source reads index \<open>-1\<close> of
  two empty arrays and returns NaN in all three fields, which \<^typ>\<open>real\<close> cannot express:
  the model is meant for non-empty \<open>data\<close> only, which is how analyzeMarket calls it.
\<close>

definition calculateMACD :: "real list \<Rightarrow> int \<Rightarrow> int \<Rightarrow> int \<Rightarrow> MACD" where
  "calculateMACD data fastPeriod slowPeriod signalPeriod =
     (let fastEMA = calculateEMA data fastPeriod;
          slowEMA = calculateEMA data slowPeriod;
          macdLine = map (\<lambda>i. fastEMA ! i - slowEMA ! i) [0 ..< length data];
          signalLine = calculateEMA macdLine signalPeriod;
          currentMACD = last macdLine;
          currentSignal = last signalLine;
          histogram = currentMACD - currentSignal
      in \<lparr> macd_value = currentMACD, macd_signal = currentSignal, macd_histogram = histogram \<rparr>)"

subsection \<open>calculateSupertrend\<close>

text \<open>The true range of every adjacent pair (source lines 144--151), for \<open>i = 1 .. length - 1\<close>.\<close>

definition trueRange :: "Candle list \<Rightarrow> nat \<Rightarrow> real" where
  "trueRange candles i =
     (let high = high (candles ! i);
          low = low (candles ! i);
          closePrev = close (candles ! (i - 1))
      in max (high - low) (max \<bar>high - closePrev\<bar> \<bar>low - closePrev\<bar>))"

definition trueRanges :: "Candle list \<Rightarrow> real list" where
  "trueRanges candles = map (trueRange candles) [1 ..< length candles]"

text \<open>
  \<open>tr.slice(-period)\<close>: a negative start counts from the end and is clamped at 0, a
  non-negative one is clamped at the length.
\<close>

definition sliceNeg :: "real list \<Rightarrow> int \<Rightarrow> real list" where
  "sliceNeg tr period =
     (let relativeStart = - period;
          n = int (length tr);
          k = (if relativeStart < 0 then max (n + relativeStart) 0 else min relativeStart n)
      in drop (nat k) tr)"

text \<open>\<open>reduce((a, b) => a + b, 0)\<close>.\<close>

definition reduceSum :: "real list \<Rightarrow> real" where
  "reduceSum xs = foldl (\<lambda>a b. a + b) 0 xs"

text \<open>
  The guard lets an empty list through when \<open>period + 1 \<le> 0\<close>; the source then reads
  \<open>candles[-1].high\<close> on \<open>undefined\<close>, which raises a TypeError.
\<close>

definition calculateSupertrend :: "Candle list \<Rightarrow> int \<Rightarrow> real \<Rightarrow> error + Supertrend" where
  "calculateSupertrend candles period multiplier =
     (if int (length candles) < period + 1 then Inr \<lparr> st_direction = UP, st_value = 0 \<rparr>
      else
        let tr = trueRanges candles;
            atr = (if int (length tr) \<ge> period
                   then reduceSum (sliceNeg tr period) / real_of_int period
                   else reduceSum tr / real (length tr))
        in case candles of
             [] \<Rightarrow> Inl TypeError
           | _ # _ \<Rightarrow>
               (let cur = last candles;
                    hl2 = (high cur + low cur) / 2;
                    basicUpper = hl2 + (multiplier * atr);
                    basicLower = hl2 - (multiplier * atr)
                in if close cur > basicLower
                   then Inr \<lparr> st_direction = UP, st_value = basicLower \<rparr>
                   else Inr \<lparr> st_direction = DOWN, st_value = basicUpper \<rparr>))"


section \<open>Signal engine (analyzeMarket)\<close>

text \<open>The fallback returned when fewer than two smoothed candles exist (source lines 195--204).\<close>

definition coldStart :: AnalysisResult where
  "coldStart =
     \<lparr> signal = CALL, confidence = 50, rsi = 50, ema20 = 0, ema50 = 0, trend = SIDEWAYS,
       macd = \<lparr> macd_value = 0, macd_signal = 0, macd_histogram = 0 \<rparr>,
       supertrend = \<lparr> st_direction = UP, st_value = 0 \<rparr> \<rparr>"

text \<open>The local constants of source lines 207--219, computed once at least two smoothed
  candles exist.\<close>

record Readings =
  currentHa :: HeikinAshiCandle
  prevHa :: HeikinAshiCandle
  price :: real
  r_rsi :: real
  r_ema20 :: real
  r_ema50 :: real
  r_macd :: MACD
  r_supertrend :: Supertrend

definition readings ::
  "Candle list \<Rightarrow> HeikinAshiCandle list \<Rightarrow> real list \<Rightarrow> error + Readings" where
  "readings candles haCandles closes =
     (let currentHa = last haCandles;
          prevHa = haCandles ! (length haCandles - 2);
          price = close currentHa;
          rsi = calculateRSI closes 14;
          ema20Arr = calculateEMA closes 20;
          ema50Arr = calculateEMA closes 50;
          macd = calculateMACD closes 12 26 9
      in case calculateSupertrend candles 10 3 of
           Inl e \<Rightarrow> Inl e
         | Inr st \<Rightarrow>
             (let ema20 = (if length ema20Arr > 0 then last ema20Arr else price);
                  ema50 = (if length ema50Arr > 0 then last ema50Arr else price)
              in Inr \<lparr> currentHa = currentHa, prevHa = prevHa, price = price, r_rsi = rsi,
                       r_ema20 = ema20, r_ema50 = ema50, r_macd = macd,
                       r_supertrend = st \<rparr>))"

text \<open>Step 3 (source lines 222--236): the primary signal and the small-body test.\<close>

definition candleSignal :: "Readings \<Rightarrow> TradeSignal" where
  "candleSignal rd = (if color (currentHa rd) = green then CALL else PUT)"

definition isSmallBody :: "Readings \<Rightarrow> bool" where
  "isSmallBody rd =
     (let totalRange = high (currentHa rd) - low (currentHa rd)
      in bodySize (currentHa rd) < totalRange * 0.3)"

text \<open>Step 4 (source lines 239--284): the confidence accumulated for \<open>signal = candleSignal\<close>,
  starting from 0, with each \<open>+=\<close> and \<open>-=\<close> in source order.\<close>

definition accumulated :: "Readings \<Rightarrow> int" where
  "accumulated rd =
     (if candleSignal rd = CALL then
        0 + 30
        + (if price rd > r_ema20 rd then 10 else 0)
        + (if r_ema20 rd > r_ema50 rd then 10 else 0)
        + (if r_rsi rd > 50 \<and> r_rsi rd < 80 then 10 else 0)
        + (if r_rsi rd < 30 then 15 else 0)
        + (if macd_histogram (r_macd rd) > 0 then 10 else 0)
        + (if macd_value (r_macd rd) > macd_signal (r_macd rd) then 5 else 0)
        + (if st_direction (r_supertrend rd) = UP then 10 else 0)
        + (if \<not> isSmallBody rd \<and> \<not> hasLowerWick (currentHa rd) then 10 else 0)
        - (if isSmallBody rd \<and> color (prevHa rd) = red then 10 else 0)
      else
        0 + 30
        + (if price rd < r_ema20 rd then 10 else 0)
        + (if r_ema20 rd < r_ema50 rd then 10 else 0)
        + (if r_rsi rd < 50 \<and> r_rsi rd > 20 then 10 else 0)
        + (if r_rsi rd > 70 then 15 else 0)
        + (if macd_histogram (r_macd rd) < 0 then 10 else 0)
        + (if macd_value (r_macd rd) < macd_signal (r_macd rd) then 5 else 0)
        + (if st_direction (r_supertrend rd) = DOWN then 10 else 0)
        + (if \<not> isSmallBody rd \<and> \<not> hasUpperWick (currentHa rd) then 10 else 0)
        - (if isSmallBody rd \<and> color (prevHa rd) = green then 10 else 0))"

definition trendLabel :: "Readings \<Rightarrow> Trend" where
  "trendLabel rd =
     (if r_ema20 rd > r_ema50 rd then TREND_UP
      else if r_ema20 rd < r_ema50 rd then TREND_DOWN
      else SIDEWAYS)"

text \<open>The final decision (source lines 286--312): tie-break below 40, then the cap at 99.\<close>

definition decide :: "Readings \<Rightarrow> AnalysisResult" where
  "decide rd =
     (let trend = trendLabel rd;
          forced = (accumulated rd < 40);
          signal = (if forced then (if price rd > r_ema20 rd then CALL else PUT)
                    else candleSignal rd);
          confidence = (if forced then 45 else accumulated rd);
          confidence = min confidence 99
      in \<lparr> signal = signal, confidence = confidence, rsi = r_rsi rd, ema20 = r_ema20 rd,
           ema50 = r_ema50 rd, trend = trend, macd = r_macd rd,
           supertrend = r_supertrend rd \<rparr>)"

definition analyzeMarket :: "Candle list \<Rightarrow> error + AnalysisResult" where
  "analyzeMarket candles =
     (let haCandles = calculateHeikinAshi candles;
          closes = map close candles
      in if length haCandles < 2 then Inr coldStart
         else case readings candles haCandles closes of
                Inl e \<Rightarrow> Inl e
              | Inr rd \<Rightarrow> Inr (decide rd))"


section \<open>Sample windows\<close>

text \<open>Two candles with a body, a range and a wick on either side; every value is a dyadic
  fraction, so the source computes on them without rounding.\<close>

definition candleA :: Candle where
  "candleA = \<lparr> time = 0, open = 2, high = 6, low = 1, close = 3 \<rparr>"

definition candleB :: Candle where
  "candleB = \<lparr> time = 60, open = 3, high = 9, low = 2, close = 4 \<rparr>"

text \<open>A two-candle window on which the accumulated confidence is 30: the last smoothed
  candle is green with a small body and the previous one is red.\<close>

definition candleC :: Candle where
  "candleC = \<lparr> time = 0, open = 2, high = 2, low = 1, close = 2 \<rparr>"

definition candleD :: Candle where
  "candleD = \<lparr> time = 60, open = 1, high = 4, low = 1, close = 2 \<rparr>"

text \<open>A first candle whose upper wick is 0.000003 long, shorter than the tolerance 0.00001.\<close>

definition candleE :: Candle where
  "candleE = \<lparr> time = 0, open = 100, high = 100.000004, low = 100, close = 100 \<rparr>"

text \<open>Four candles with gaps between a close and the next range, so that the previous-close
  terms of the true range decide: the true ranges are 7, 10 and 4.\<close>

definition candleF :: Candle where
  "candleF = \<lparr> time = 0, open = 5, high = 6, low = 4, close = 5 \<rparr>"

definition candleG :: Candle where
  "candleG = \<lparr> time = 60, open = 10, high = 12, low = 9, close = 11 \<rparr>"

definition candleH :: Candle where
  "candleH = \<lparr> time = 120, open = 20, high = 21, low = 19, close = 20 \<rparr>"

definition candleI :: Candle where
  "candleI = \<lparr> time = 180, open = 20, high = 22, low = 18, close = 19 \<rparr>"


section \<open>Properties\<close>

subsection \<open>Shape of the Heikin-Ashi output\<close>

lemma length_haLoop: "length (haLoop p cs) = length cs"
  by (induction cs arbitrary: p) (simp_all add: Let_def)

lemma length_calculateHeikinAshi: "length (calculateHeikinAshi cs) = length cs"
  by (simp add: calculateHeikinAshi_def Let_def length_haLoop split: list.splits)

lemma haLoop_nth:
  "i < length cs \<Longrightarrow>
   haLoop p cs ! i = haStep (if i = 0 then p else haLoop p cs ! (i - 1)) (cs ! i)"
proof (induction cs arbitrary: p i)
  case Nil
  then show ?case by simp
next
  case (Cons c cs)
  show ?case
  proof (cases i)
    case 0
    then show ?thesis by (simp add: Let_def)
  next
    case (Suc j)
    with Cons.prems have j: "j < length cs" by simp
    show ?thesis
      using Cons.IH [OF j, of "haStep p c"] Suc
      by (cases j) (simp_all add: Let_def)
  qed
qed

lemma calculateHeikinAshi_nth:
  assumes "0 < i" "i < length cs"
  shows "calculateHeikinAshi cs ! i = haStep (calculateHeikinAshi cs ! (i - 1)) (cs ! i)"
proof -
  from assms obtain c rest where cs: "cs = c # rest" by (cases cs) auto
  from assms obtain j where i: "i = Suc j" by (cases i) auto
  with assms cs have j: "j < length rest" by simp
  show ?thesis
    using haLoop_nth [OF j, of "firstHa c"] cs i
    by (cases j) (simp_all add: calculateHeikinAshi_def Let_def)
qed

lemma calculateHeikinAshi_0:
  "cs \<noteq> [] \<Longrightarrow> calculateHeikinAshi cs ! 0 = firstHa (cs ! 0)"
  by (cases cs) (simp_all add: calculateHeikinAshi_def Let_def)

subsection \<open>Structure of analyzeMarket\<close>

lemma calculateSupertrend_Inr:
  "candles \<noteq> [] \<Longrightarrow> \<exists>st. calculateSupertrend candles period multiplier = Inr st"
  by (cases candles) (simp_all add: calculateSupertrend_def Let_def)

lemma readings_Inr:
  "candles \<noteq> [] \<Longrightarrow> \<exists>rd. readings candles haCandles closes = Inr rd"
  using calculateSupertrend_Inr [of candles 10 3]
  by (auto simp add: readings_def Let_def)

lemma analyzeMarket_warm:
  assumes "2 \<le> length (calculateHeikinAshi candles)"
  shows "\<exists>rd. readings candles (calculateHeikinAshi candles) (map close candles) = Inr rd
           \<and> analyzeMarket candles = Inr (decide rd)"
proof -
  from assms have "candles \<noteq> []" by (auto simp add: calculateHeikinAshi_def)
  then obtain rd where "readings candles (calculateHeikinAshi candles) (map close candles) = Inr rd"
    using readings_Inr by blast
  with assms show ?thesis by (simp add: analyzeMarket_def Let_def)
qed

lemma analyzeMarket_cold:
  "length (calculateHeikinAshi candles) < 2 \<Longrightarrow> analyzeMarket candles = Inr coldStart"
  by (simp add: analyzeMarket_def Let_def)

lemma decide_signal: "signal (decide rd) = CALL \<or> signal (decide rd) = PUT"
  by (simp add: decide_def candleSignal_def Let_def)

lemma decide_confidence: "40 \<le> confidence (decide rd) \<and> confidence (decide rd) \<le> 99"
  by (simp add: decide_def Let_def)

lemma decide_tiebreak:
  "signal (decide rd) =
      (if accumulated rd < 40 then (if price rd > r_ema20 rd then CALL else PUT)
       else candleSignal rd)
   \<and> confidence (decide rd) = min (if accumulated rd < 40 then 45 else accumulated rd) 99"
  by (simp add: decide_def Let_def)

lemma readings_fields:
  "readings candles haCandles closes = Inr rd \<Longrightarrow>
     currentHa rd = last haCandles \<and> price rd = close (last haCandles)
     \<and> prevHa rd = haCandles ! (length haCandles - 2)"
  by (auto simp add: readings_def Let_def split: sum.splits)

lemma decide_fields: "ema20 (decide rd) = r_ema20 rd \<and> ema50 (decide rd) = r_ema50 rd"
  by (simp add: decide_def Let_def)

lemma ha_CD:
  "calculateHeikinAshi [candleC, candleD] =
     [\<lparr> time = 0, open = 2, high = 2, low = 1, close = 7 / 4, color = red,
        hasUpperWick = False, hasLowerWick = True, bodySize = 1 / 4, upperWickSize = 0,
        lowerWickSize = 3 / 4 \<rparr>,
      \<lparr> time = 60, open = 15 / 8, high = 4, low = 1, close = 2, color = green,
        hasUpperWick = True, hasLowerWick = True, bodySize = 1 / 8, upperWickSize = 2,
        lowerWickSize = 7 / 8 \<rparr>]"
  by (simp add: calculateHeikinAshi_def firstHa_def haStep_def candleC_def candleD_def Let_def)

lemma ema_pair: "calculateEMA [a, b] p = [a, (b - a) * (2 / (real_of_int p + 1)) + a]"
  by (simp add: calculateEMA_def Let_def)

lemma rsi_CD: "calculateRSI [2, 2] 14 = 100"
  by (simp add: calculateRSI_def rsiStep_def Let_def)

lemma macd_CD: "calculateMACD [2, 2] 12 26 9 = \<lparr> macd_value = 0, macd_signal = 0, macd_histogram = 0 \<rparr>"
  by (simp add: calculateMACD_def ema_pair Let_def upt_rec)

lemma st_CD: "calculateSupertrend [candleC, candleD] 10 3 = Inr \<lparr> st_direction = UP, st_value = 0 \<rparr>"
  by (simp add: calculateSupertrend_def)

lemma readings_CD:
  "readings [candleC, candleD] (calculateHeikinAshi [candleC, candleD]) (map close [candleC, candleD])
     = Inr \<lparr> currentHa = calculateHeikinAshi [candleC, candleD] ! 1,
             prevHa = calculateHeikinAshi [candleC, candleD] ! 0,
             price = 2, r_rsi = 100, r_ema20 = 2, r_ema50 = 2,
             r_macd = \<lparr> macd_value = 0, macd_signal = 0, macd_histogram = 0 \<rparr>,
             r_supertrend = \<lparr> st_direction = UP, st_value = 0 \<rparr> \<rparr>"
proof -
  have closes: "map close [candleC, candleD] = [2, 2]"
    by (simp add: candleC_def candleD_def)
  show ?thesis
    unfolding closes readings_def st_CD rsi_CD macd_CD ema_pair
    by (simp add: ha_CD Let_def)
qed

lemma accumulated_CD:
  "accumulated \<lparr> currentHa = calculateHeikinAshi [candleC, candleD] ! 1,
             prevHa = calculateHeikinAshi [candleC, candleD] ! 0,
             price = 2, r_rsi = 100, r_ema20 = 2, r_ema50 = 2,
             r_macd = \<lparr> macd_value = 0, macd_signal = 0, macd_histogram = 0 \<rparr>,
             r_supertrend = \<lparr> st_direction = UP, st_value = 0 \<rparr> \<rparr> = 30"
  by (simp add: accumulated_def candleSignal_def isSmallBody_def ha_CD Let_def)

subsection \<open>Wick flags and Supertrend helpers\<close>

lemma haStep_wicks:
  "hasUpperWick (haStep p c) = (upperWickSize (haStep p c) > 0.00001)
   \<and> hasLowerWick (haStep p c) = (lowerWickSize (haStep p c) > 0.00001)"
  by (simp add: haStep_def Let_def)

lemma later_wicks_use_epsilon:
  assumes "0 < i" "i < length candles"
  shows "hasUpperWick (calculateHeikinAshi candles ! i)
           = (upperWickSize (calculateHeikinAshi candles ! i) > 0.00001)
       \<and> hasLowerWick (calculateHeikinAshi candles ! i)
           = (lowerWickSize (calculateHeikinAshi candles ! i) > 0.00001)"
  unfolding calculateHeikinAshi_nth [OF assms] by (rule haStep_wicks)

lemma foldl_plus: "foldl (\<lambda>a b. a + b) (a::real) xs = a + sum_list xs"
  by (induction xs arbitrary: a) simp_all

lemma reduceSum_sum_list: "reduceSum xs = sum_list xs"
  by (simp add: reduceSum_def foldl_plus)

lemma length_trueRanges: "length (trueRanges candles) = length candles - 1"
  by (simp add: trueRanges_def)

lemma sliceNeg_last:
  "1 \<le> p \<Longrightarrow> p \<le> int (length tr) \<Longrightarrow> sliceNeg tr p = drop (length tr - nat p) tr"
  by (simp add: sliceNeg_def Let_def nat_diff_distrib)

subsection \<open>EMA and RSI helpers\<close>

lemma length_emaLoop: "length (emaLoop k prevEma xs) = length xs"
  by (induction xs arbitrary: prevEma) (simp_all add: Let_def)

lemma length_calculateEMA: "length (calculateEMA data period) = length data"
  by (simp add: calculateEMA_def Let_def length_emaLoop split: list.splits)

lemma calculateEMA_seed: "data \<noteq> [] \<Longrightarrow> calculateEMA data period ! 0 = data ! 0"
  by (cases data) (simp_all add: calculateEMA_def Let_def)

lemma calculateRSI_negative_period:
  assumes "period < 0"
  shows "calculateRSI closePrices period = (if length closePrices < 2 then 50 else 100)"
proof (cases "length closePrices < 2")
  case True
  then show ?thesis by (simp add: calculateRSI_def)
next
  case False
  with assms have ep: "min (int (length closePrices) - 1) period = period" by simp
  from assms have "foldl (rsiStep closePrices) (0, 0)
                     [nat (int (length closePrices) - period) ..< length closePrices] = (0, 0)"
    by simp
  with False show ?thesis
    unfolding calculateRSI_def ep Let_def by simp
qed

subsection \<open>Re-applying the transform\<close>





subsection \<open>RSI of a flat two-element series\<close>

text \<open>
  C1 (as stated, refuted): on the closes \<open>[10, 10]\<close> with the default period 14 the function
  does not return 50. The list has two elements, so the early return for fewer than two
  closes is not taken.
\<close>

theorem calculateRSI_flat_pair_not_50: "calculateRSI [10, 10] 14 \<noteq> 50"
  by (simp add: calculateRSI_def rsiStep_def Let_def)

text \<open>
  C1 (amended): on \<open>[10, 10]\<close> the single delta is 0, which counts as a gain; the average loss
  is 0 and the function returns 100.
\<close>

theorem calculateRSI_flat_pair: "calculateRSI [10, 10] 14 = 100"
  by (simp add: calculateRSI_def rsiStep_def Let_def)

subsection \<open>Heikin-Ashi formulas\<close>

text \<open>
  C2: on a non-empty candle sequence the output has the length of the input; its first
  element keeps the first raw open and has the four-value mean as close; every later element
  has the four-value mean of its raw candle as close, the mean of the previous smoothed open
  and close as open, the maximum (minimum) of the raw high (low) and its own open and close
  as high (low), and is green exactly when its close is at least its open.
\<close>

theorem calculateHeikinAshi_formulas:
  assumes "candles \<noteq> []"
  shows "length (calculateHeikinAshi candles) = length candles
    \<and> open (calculateHeikinAshi candles ! 0) = open (candles ! 0)
    \<and> close (calculateHeikinAshi candles ! 0)
        = (open (candles ! 0) + high (candles ! 0) + low (candles ! 0) + close (candles ! 0)) / 4
    \<and> (\<forall>i. 0 < i \<and> i < length candles \<longrightarrow>
          close (calculateHeikinAshi candles ! i)
            = (open (candles ! i) + high (candles ! i) + low (candles ! i) + close (candles ! i)) / 4
        \<and> open (calculateHeikinAshi candles ! i)
            = (open (calculateHeikinAshi candles ! (i - 1))
               + close (calculateHeikinAshi candles ! (i - 1))) / 2
        \<and> high (calculateHeikinAshi candles ! i)
            = max (high (candles ! i))
                (max (open (calculateHeikinAshi candles ! i)) (close (calculateHeikinAshi candles ! i)))
        \<and> low (calculateHeikinAshi candles ! i)
            = min (low (candles ! i))
                (min (open (calculateHeikinAshi candles ! i)) (close (calculateHeikinAshi candles ! i)))
        \<and> (color (calculateHeikinAshi candles ! i) = green
             \<longleftrightarrow> close (calculateHeikinAshi candles ! i) \<ge> open (calculateHeikinAshi candles ! i)))"
proof -
  have first: "calculateHeikinAshi candles ! 0 = firstHa (candles ! 0)"
    using assms by (rule calculateHeikinAshi_0)
  have step: "calculateHeikinAshi candles ! i
                = haStep (calculateHeikinAshi candles ! (i - 1)) (candles ! i)"
    if "0 < i" "i < length candles" for i
    using that by (rule calculateHeikinAshi_nth)
  show ?thesis
    by (simp add: length_calculateHeikinAshi first) (simp add: firstHa_def step haStep_def Let_def)
qed

theorem calculateHeikinAshi_formulas_witness:
  "[candleA, candleB] \<noteq> []
   \<and> length (calculateHeikinAshi [candleA, candleB]) = 2
   \<and> open (calculateHeikinAshi [candleA, candleB] ! 0) = 2
   \<and> close (calculateHeikinAshi [candleA, candleB] ! 0) = 3
   \<and> close (calculateHeikinAshi [candleA, candleB] ! 1) = 9 / 2
   \<and> open (calculateHeikinAshi [candleA, candleB] ! 1) = 5 / 2
   \<and> high (calculateHeikinAshi [candleA, candleB] ! 1) = 9
   \<and> low (calculateHeikinAshi [candleA, candleB] ! 1) = 2
   \<and> color (calculateHeikinAshi [candleA, candleB] ! 1) = green"
proof -
  have ne: "[candleA, candleB] \<noteq> []" by simp
  note f = calculateHeikinAshi_formulas [OF ne]
  from f have len: "length (calculateHeikinAshi [candleA, candleB]) = 2" by simp
  from f have o0: "open (calculateHeikinAshi [candleA, candleB] ! 0) = 2"
    by (simp add: candleA_def)
  from f have c0: "close (calculateHeikinAshi [candleA, candleB] ! 0) = 3"
    by (simp add: candleA_def)
  from f have at1: "close (calculateHeikinAshi [candleA, candleB] ! 1)
            = (open ([candleA, candleB] ! 1) + high ([candleA, candleB] ! 1) + low ([candleA, candleB] ! 1) + close ([candleA, candleB] ! 1)) / 4
        \<and> open (calculateHeikinAshi [candleA, candleB] ! 1)
            = (open (calculateHeikinAshi [candleA, candleB] ! (1 - 1))
               + close (calculateHeikinAshi [candleA, candleB] ! (1 - 1))) / 2
        \<and> high (calculateHeikinAshi [candleA, candleB] ! 1)
            = max (high ([candleA, candleB] ! 1))
                (max (open (calculateHeikinAshi [candleA, candleB] ! 1)) (close (calculateHeikinAshi [candleA, candleB] ! 1)))
        \<and> low (calculateHeikinAshi [candleA, candleB] ! 1)
            = min (low ([candleA, candleB] ! 1))
                (min (open (calculateHeikinAshi [candleA, candleB] ! 1)) (close (calculateHeikinAshi [candleA, candleB] ! 1)))
        \<and> (color (calculateHeikinAshi [candleA, candleB] ! 1) = green
             \<longleftrightarrow> close (calculateHeikinAshi [candleA, candleB] ! 1) \<ge> open (calculateHeikinAshi [candleA, candleB] ! 1))"
    by (elim conjE allE [of _ 1]) simp
  from at1 have c1: "close (calculateHeikinAshi [candleA, candleB] ! 1) = 9 / 2"
    by (simp add: candleB_def)
  from at1 o0 c0 have o1: "open (calculateHeikinAshi [candleA, candleB] ! 1) = 5 / 2"
    by simp
  from at1 have h1: "high (calculateHeikinAshi [candleA, candleB] ! 1) = 9"
    unfolding o1 c1 by (simp add: candleB_def)
  from at1 have l1: "low (calculateHeikinAshi [candleA, candleB] ! 1) = 2"
    unfolding o1 c1 by (simp add: candleB_def)
  from at1 have g1: "color (calculateHeikinAshi [candleA, candleB] ! 1) = green"
    unfolding o1 c1 by simp
  from ne len o0 c0 c1 o1 h1 l1 g1 show ?thesis by blast
qed

subsection \<open>Cold start\<close>

text \<open>
  C3: the smoothed transform has fewer than 2 elements exactly on the empty list and on
  single-candle lists, and on every such input analyzeMarket returns (without raising) the
  cold-start result: signal CALL, confidence 50, rsi 50, ema20 0, ema50 0, trend SIDEWAYS,
  macd 0/0/0 and supertrend UP with value 0.
\<close>

theorem analyzeMarket_cold_start:
  "(length (calculateHeikinAshi candles) < 2 \<longleftrightarrow> candles = [] \<or> (\<exists>c. candles = [c]))
   \<and> (length (calculateHeikinAshi candles) < 2 \<longrightarrow>
        analyzeMarket candles =
          Inr \<lparr> signal = CALL, confidence = 50, rsi = 50, ema20 = 0, ema50 = 0, trend = SIDEWAYS,
                macd = \<lparr> macd_value = 0, macd_signal = 0, macd_histogram = 0 \<rparr>,
                supertrend = \<lparr> st_direction = UP, st_value = 0 \<rparr> \<rparr>)"
proof -
  have "length candles < 2 \<longleftrightarrow> candles = [] \<or> (\<exists>c. candles = [c])"
    by (cases candles) (auto simp add: less_Suc_eq_0_disj)
  moreover have "length (calculateHeikinAshi candles) < 2 \<Longrightarrow> analyzeMarket candles = Inr coldStart"
    by (rule analyzeMarket_cold)
  ultimately show ?thesis
    by (simp add: length_calculateHeikinAshi coldStart_def)
qed

theorem analyzeMarket_cold_start_witness:
  "length (calculateHeikinAshi []) < 2
   \<and> analyzeMarket [] =
          Inr \<lparr> signal = CALL, confidence = 50, rsi = 50, ema20 = 0, ema50 = 0, trend = SIDEWAYS,
                macd = \<lparr> macd_value = 0, macd_signal = 0, macd_histogram = 0 \<rparr>,
                supertrend = \<lparr> st_direction = UP, st_value = 0 \<rparr> \<rparr>
   \<and> length (calculateHeikinAshi [candleA]) < 2
   \<and> analyzeMarket [candleA] =
          Inr \<lparr> signal = CALL, confidence = 50, rsi = 50, ema20 = 0, ema50 = 0, trend = SIDEWAYS,
                macd = \<lparr> macd_value = 0, macd_signal = 0, macd_histogram = 0 \<rparr>,
                supertrend = \<lparr> st_direction = UP, st_value = 0 \<rparr> \<rparr>"
proof -
  have e: "length (calculateHeikinAshi []) < 2"
    using analyzeMarket_cold_start [of "[]"] by simp
  have s: "length (calculateHeikinAshi [candleA]) < 2"
    using analyzeMarket_cold_start [of "[candleA]"] by simp
  from e s analyzeMarket_cold_start [of "[]"] analyzeMarket_cold_start [of "[candleA]"]
  show ?thesis by blast
qed

subsection \<open>Tie-break and cap\<close>

text \<open>
  C4: on every window whose smoothed transform has at least 2 elements analyzeMarket returns
  a result; when the accumulated confidence is below 40 the signal is CALL if the current
  smoothed close exceeds ema20 and PUT otherwise, and the confidence is exactly 45; otherwise
  the signal is the candle signal; in every case the returned confidence is the minimum of
  the (possibly overridden) confidence and 99.
\<close>

theorem analyzeMarket_tie_break:
  assumes "2 \<le> length (calculateHeikinAshi candles)"
  shows "\<exists>rd r. readings candles (calculateHeikinAshi candles) (map close candles) = Inr rd
           \<and> analyzeMarket candles = Inr r
           \<and> (accumulated rd < 40 \<longrightarrow>
                 signal r = (if close (last (calculateHeikinAshi candles)) > ema20 r then CALL else PUT)
                 \<and> confidence r = 45)
           \<and> (\<not> accumulated rd < 40 \<longrightarrow> signal r = candleSignal rd)
           \<and> confidence r = min (if accumulated rd < 40 then 45 else accumulated rd) 99"
proof -
  from analyzeMarket_warm [OF assms] obtain rd where
    rd: "readings candles (calculateHeikinAshi candles) (map close candles) = Inr rd"
    and am: "analyzeMarket candles = Inr (decide rd)"
    by blast
  from readings_fields [OF rd] have p: "price rd = close (last (calculateHeikinAshi candles))"
    by simp
  have e: "ema20 (decide rd) = r_ema20 rd" by (simp add: decide_fields)
  from decide_tiebreak [of rd] have
    "(accumulated rd < 40 \<longrightarrow>
        signal (decide rd)
          = (if close (last (calculateHeikinAshi candles)) > ema20 (decide rd) then CALL else PUT)
        \<and> confidence (decide rd) = 45)
     \<and> (\<not> accumulated rd < 40 \<longrightarrow> signal (decide rd) = candleSignal rd)
     \<and> confidence (decide rd) = min (if accumulated rd < 40 then 45 else accumulated rd) 99"
    unfolding p e by simp
  with rd am show ?thesis by blast
qed

theorem analyzeMarket_tie_break_witness:
  "2 \<le> length (calculateHeikinAshi [candleC, candleD])
   \<and> (\<exists>rd r. readings [candleC, candleD] (calculateHeikinAshi [candleC, candleD])
                 (map close [candleC, candleD]) = Inr rd
              \<and> accumulated rd = 30
              \<and> analyzeMarket [candleC, candleD] = Inr r
              \<and> signal r = PUT \<and> confidence r = 45)"
proof -
  have len: "2 \<le> length (calculateHeikinAshi [candleC, candleD])"
    by (simp add: length_calculateHeikinAshi)
  from analyzeMarket_tie_break [OF len] obtain rd r where
    rd: "readings [candleC, candleD] (calculateHeikinAshi [candleC, candleD])
           (map close [candleC, candleD]) = Inr rd"
    and am: "analyzeMarket [candleC, candleD] = Inr r"
    and tb: "accumulated rd < 40 \<longrightarrow>
               signal r = (if close (last (calculateHeikinAshi [candleC, candleD])) > ema20 r
                           then CALL else PUT)
               \<and> confidence r = 45"
    by blast
  from rd have rd_eq: "rd = \<lparr> currentHa = calculateHeikinAshi [candleC, candleD] ! 1,
             prevHa = calculateHeikinAshi [candleC, candleD] ! 0,
             price = 2, r_rsi = 100, r_ema20 = 2, r_ema50 = 2,
             r_macd = \<lparr> macd_value = 0, macd_signal = 0, macd_histogram = 0 \<rparr>,
             r_supertrend = \<lparr> st_direction = UP, st_value = 0 \<rparr> \<rparr>"
    unfolding readings_CD by simp
  have acc: "accumulated rd = 30"
    unfolding rd_eq by (rule accumulated_CD)
  from am have "r = decide rd"
    using rd by (simp add: analyzeMarket_def Let_def length_calculateHeikinAshi)
  then have e20: "ema20 r = 2"
    by (simp add: decide_fields rd_eq)
  have cl: "close (last (calculateHeikinAshi [candleC, candleD])) = 2"
    by (simp add: ha_CD)
  from tb acc have "signal r = PUT \<and> confidence r = 45"
    by (simp add: e20 cl)
  with len rd acc am show ?thesis by blast
qed

subsection \<open>The signal is binary\<close>

text \<open>
  C5: for every candle list analyzeMarket returns a result whose signal is CALL or PUT, never
  NEUTRAL or WAITING.
\<close>

theorem analyzeMarket_signal_binary:
  "\<exists>r. analyzeMarket candles = Inr r \<and> (signal r = CALL \<or> signal r = PUT)"
proof (cases "length (calculateHeikinAshi candles) < 2")
  case True
  then have "analyzeMarket candles = Inr coldStart" by (rule analyzeMarket_cold)
  then show ?thesis by (simp add: coldStart_def)
next
  case False
  then have "2 \<le> length (calculateHeikinAshi candles)" by simp
  from analyzeMarket_warm [OF this] obtain rd where "analyzeMarket candles = Inr (decide rd)"
    by blast
  with decide_signal [of rd] show ?thesis by simp
qed

subsection \<open>Range of the confidence\<close>

text \<open>
  C10: on every window whose smoothed transform has at least 2 elements the confidence
  returned by analyzeMarket lies between 40 and 99.
\<close>

theorem analyzeMarket_confidence_range:
  assumes "2 \<le> length (calculateHeikinAshi candles)"
  shows "\<exists>r. analyzeMarket candles = Inr r \<and> 40 \<le> confidence r \<and> confidence r \<le> 99"
proof -
  from analyzeMarket_warm [OF assms] obtain rd where "analyzeMarket candles = Inr (decide rd)"
    by blast
  with decide_confidence [of rd] show ?thesis by simp
qed

theorem analyzeMarket_confidence_range_witness:
  "2 \<le> length (calculateHeikinAshi [candleA, candleB])
   \<and> (\<exists>r. analyzeMarket [candleA, candleB] = Inr r \<and> 40 \<le> confidence r \<and> confidence r \<le> 99)"
proof -
  have len: "2 \<le> length (calculateHeikinAshi [candleA, candleB])"
    by (simp add: length_calculateHeikinAshi)
  from len analyzeMarket_confidence_range [OF len] show ?thesis by blast
qed

subsection \<open>Wick flags of the first smoothed candle\<close>

text \<open>
  C6 (the code at the failing input): the claim asks that \<open>hasUpperWick\<close> hold exactly when
  \<open>upperWickSize\<close> exceeds 0.00001 on every element, the first included. The loop does so
  (lemma \<open>later_wicks_use_epsilon\<close>), but the first element compares the high strictly with
  the body top: on the single candle \<open>candleE\<close> the flag is set although the wick measures
  0.000003.
\<close>

theorem first_wick_ignores_epsilon:
  "hasUpperWick (calculateHeikinAshi [candleE] ! 0)
   \<and> upperWickSize (calculateHeikinAshi [candleE] ! 0) = 0.000003
   \<and> \<not> upperWickSize (calculateHeikinAshi [candleE] ! 0) > 0.00001"
  by (simp add: calculateHeikinAshi_def firstHa_def candleE_def Let_def)

subsection \<open>Supertrend\<close>

lemma trueRanges_last:
  assumes "1 \<le> p" "p + 1 \<le> int (length candles)"
  shows "drop (length (trueRanges candles) - nat p) (trueRanges candles)
           = map (trueRange candles) [length candles - nat p ..< length candles]"
proof -
  from assms have k: "1 + (length candles - 1 - nat p) = length candles - nat p"
    by linarith
  have "drop (length candles - 1 - nat p) (map (trueRange candles) [1 ..< length candles])
          = map (trueRange candles) [1 + (length candles - 1 - nat p) ..< length candles]"
    by (simp add: drop_map)
  then show ?thesis
    unfolding k by (simp add: trueRanges_def)
qed

lemma trueRange_formula:
  "trueRange candles =
     (\<lambda>i. max (high (candles ! i) - low (candles ! i))
            (max \<bar>high (candles ! i) - close (candles ! (i - 1))\<bar>
                 \<bar>low (candles ! i) - close (candles ! (i - 1))\<bar>))"
  by (rule ext) (simp add: trueRange_def Let_def)

text \<open>
  C7: calculateSupertrend with period \<open>p\<close> and multiplier \<open>m\<close> returns UP with value 0 on
  every list with fewer than \<open>p + 1\<close> candles. On every longer list (for a period of at least
  1) the true range at index \<open>i\<close> is the maximum of \<open>high i - low i\<close>,
  \<open>|high i - close (i - 1)|\<close> and \<open>|low i - close (i - 1)|\<close>, the ATR is the sum of the true
  ranges at the last \<open>p\<close> indices divided by \<open>p\<close>, and the result is UP at \<open>hl2 - m * ATR\<close>
  when the last close exceeds that band and DOWN at \<open>hl2 + m * ATR\<close> otherwise, with \<open>hl2\<close>
  the mean of the last candle's high and low.
\<close>

theorem calculateSupertrend_spec:
  "(int (length candles) < p + 1 \<longrightarrow>
      calculateSupertrend candles p m = Inr \<lparr> st_direction = UP, st_value = 0 \<rparr>)
   \<and> (1 \<le> p \<and> p + 1 \<le> int (length candles) \<longrightarrow>
        length [length candles - nat p ..< length candles] = nat p
        \<and> (let tr = (\<lambda>i. max (high (candles ! i) - low (candles ! i))
                             (max \<bar>high (candles ! i) - close (candles ! (i - 1))\<bar>
                                  \<bar>low (candles ! i) - close (candles ! (i - 1))\<bar>));
                atr = sum_list (map tr [length candles - nat p ..< length candles])
                       / real_of_int p;
                hl2 = (high (last candles) + low (last candles)) / 2;
                basicUpper = hl2 + m * atr;
                basicLower = hl2 - m * atr
            in calculateSupertrend candles p m =
                 Inr (if close (last candles) > basicLower
                      then \<lparr> st_direction = UP, st_value = basicLower \<rparr>
                      else \<lparr> st_direction = DOWN, st_value = basicUpper \<rparr>)))"
proof (intro conjI impI)
  assume "int (length candles) < p + 1"
  then show "calculateSupertrend candles p m = Inr \<lparr> st_direction = UP, st_value = 0 \<rparr>"
    by (simp add: calculateSupertrend_def)
next
  assume h: "1 \<le> p \<and> p + 1 \<le> int (length candles)"
  then show "length [length candles - nat p ..< length candles] = nat p"
    by simp linarith
next
  assume h: "1 \<le> p \<and> p + 1 \<le> int (length candles)"
  then have ne: "candles \<noteq> []" by auto
  from h have ptr: "p \<le> int (length (trueRanges candles))"
    by (simp add: length_trueRanges)
  from h have guard: "\<not> int (length candles) < p + 1" by simp
  from h ptr have sl: "sliceNeg (trueRanges candles) p
                  = map (trueRange candles) [length candles - nat p ..< length candles]"
    by (simp add: sliceNeg_last trueRanges_last)
  from ne obtain c rest where cs: "candles = c # rest" by (cases candles) auto
  have run: "calculateSupertrend candles p m =
          (let atr = sum_list (map (trueRange candles) [length candles - nat p ..< length candles])
                       / real_of_int p;
               hl2 = (high (last candles) + low (last candles)) / 2;
               basicUpper = hl2 + m * atr;
               basicLower = hl2 - m * atr
           in Inr (if close (last candles) > basicLower
                   then \<lparr> st_direction = UP, st_value = basicLower \<rparr>
                   else \<lparr> st_direction = DOWN, st_value = basicUpper \<rparr>))"
    unfolding calculateSupertrend_def Let_def if_not_P [OF guard] if_P [OF ptr] sl reduceSum_sum_list
    by (simp add: cs)
  show "let tr = (\<lambda>i. max (high (candles ! i) - low (candles ! i))
                             (max \<bar>high (candles ! i) - close (candles ! (i - 1))\<bar>
                                  \<bar>low (candles ! i) - close (candles ! (i - 1))\<bar>));
                atr = sum_list (map tr [length candles - nat p ..< length candles])
                       / real_of_int p;
                hl2 = (high (last candles) + low (last candles)) / 2;
                basicUpper = hl2 + m * atr;
                basicLower = hl2 - m * atr
            in calculateSupertrend candles p m =
                 Inr (if close (last candles) > basicLower
                      then \<lparr> st_direction = UP, st_value = basicLower \<rparr>
                      else \<lparr> st_direction = DOWN, st_value = basicUpper \<rparr>)"
    unfolding run trueRange_formula Let_def ..
qed

theorem calculateSupertrend_spec_witness:
  "int (length [candleF, candleG]) < 2 + 1
   \<and> calculateSupertrend [candleF, candleG] 2 3 = Inr \<lparr> st_direction = UP, st_value = 0 \<rparr>
   \<and> (1::int) \<le> 2 \<and> 2 + 1 \<le> int (length [candleF, candleG, candleH, candleI])
   \<and> calculateSupertrend [candleF, candleG, candleH, candleI] 2 3
        = Inr \<lparr> st_direction = UP, st_value = - 1 \<rparr>
   \<and> calculateSupertrend [candleF, candleG, candleH, candleI] 2 (1 / 7)
        = Inr \<lparr> st_direction = DOWN, st_value = 21 \<rparr>"
proof -
  have short: "int (length [candleF, candleG]) < 2 + 1" by simp
  have long: "(1::int) \<le> 2 \<and> 2 + 1 \<le> int (length [candleF, candleG, candleH, candleI])"
    by simp
  have idx: "[length [candleF, candleG, candleH, candleI] - nat 2
               ..< length [candleF, candleG, candleH, candleI]] = [2, 3]"
    by (simp add: upt_rec)
  from calculateSupertrend_spec [of "[candleF, candleG]" 2 3] short
  have a: "calculateSupertrend [candleF, candleG] 2 3 = Inr \<lparr> st_direction = UP, st_value = 0 \<rparr>"
    by blast
  from calculateSupertrend_spec [of "[candleF, candleG, candleH, candleI]" 2 3] long
  have b: "calculateSupertrend [candleF, candleG, candleH, candleI] 2 3
        = Inr \<lparr> st_direction = UP, st_value = - 1 \<rparr>"
    unfolding idx by (simp add: candleG_def candleH_def candleI_def Let_def)
  from calculateSupertrend_spec [of "[candleF, candleG, candleH, candleI]" 2 "1 / 7"] long
  have c: "calculateSupertrend [candleF, candleG, candleH, candleI] 2 (1 / 7)
        = Inr \<lparr> st_direction = DOWN, st_value = 21 \<rparr>"
    unfolding idx by (simp add: candleG_def candleH_def candleI_def Let_def)
  from short long a b c show ?thesis by blast
qed

subsection \<open>Malformed period arguments\<close>

text \<open>
  C8 (as stated, refuted): a negative period is not rejected. Neither function has a
  \<open>throw\<close> statement or a read that can raise, which is why both are modelled as total
  functions without an error branch; on the series 1, 2, 3 with period \<open>-5\<close> calculateEMA
  returns the series 1, 1/2, -3/4 and calculateRSI returns 100.
\<close>

theorem negative_period_is_not_rejected:
  "calculateEMA [1, 2, 3] (- 5) = [1, 1 / 2, - 3 / 4] \<and> calculateRSI [1, 2, 3] (- 5) = 100"
  by (simp add: calculateEMA_def calculateRSI_def Let_def)

text \<open>
  C8 (amended): for every negative period calculateEMA returns a series of the length of its
  input whose first value is the first input value, and calculateRSI returns 50 on fewer
  than two closes and 100 otherwise; neither validates its period argument.
\<close>

theorem negative_period_returns:
  assumes "period < 0"
  shows "length (calculateEMA data period) = length data
       \<and> (data \<noteq> [] \<longrightarrow> calculateEMA data period ! 0 = data ! 0)
       \<and> calculateRSI closePrices period = (if length closePrices < 2 then 50 else 100)"
  using assms
  by (simp add: length_calculateEMA calculateEMA_seed calculateRSI_negative_period)

theorem negative_period_returns_witness:
  "(- 2 :: int) < 0
   \<and> length (calculateEMA [4, 6] (- 2)) = length [4 :: real, 6]
   \<and> [4 :: real, 6] \<noteq> []
   \<and> calculateEMA [4, 6] (- 2) ! 0 = 4
   \<and> calculateRSI [4, 6] (- 2) = 100"
proof -
  have n: "(- 2 :: int) < 0" by simp
  from negative_period_returns [OF n, of "[4, 6]" "[4, 6]"] n show ?thesis by simp
qed

subsection \<open>Applying the transform twice\<close>






end
